theory Spec2Isabelle
  imports Main "HOL-Library.Sublist"
begin

section \<open>Python values and the primitives the program uses\<close>

text \<open>
  A Python \<^verbatim>\<open>str\<close> is a sequence of Unicode code points, so it is modelled as a list
  of code points (natural numbers), not as a list of 8-bit characters: the case-insensitive
  search of the program tells code points above 255 apart. The literals of the source are
  ASCII; \<open>str_of\<close> gives the \<^verbatim>\<open>str\<close> of a literal.
\<close>

type_synonym pystr = "nat list"

definition str_of :: "string \<Rightarrow> pystr" where
  "str_of cs = map of_char cs"

text \<open>
  The program works on values decoded from JSON by \<^verbatim>\<open>response.json()\<close>: \<^verbatim>\<open>None\<close>,
  booleans, numbers, strings, lists and dictionaries with string keys. A dictionary is an
  association list in insertion order; the decoder never produces a repeated key, and
  lookup takes the first binding. JSON numbers are modelled as integers.
\<close>

datatype json =
    JNull
  | JBool bool
  | JNum int
  | JStr pystr
  | JList "json list"
  | JDict "(pystr \<times> json) list"

datatype py_error =
    AttributeError
  | TypeError
  | KeyError
  | ValueError
  | UnicodeEncodeError
  | HTTPError
  | JSONDecodeError
  | ConnectionError
  | OSError

text \<open>Truth value testing (\<^verbatim>\<open>if x\<close>, \<^verbatim>\<open>not x\<close>, \<^verbatim>\<open>x or y\<close>).\<close>

fun py_truthy :: "json \<Rightarrow> bool" where
  "py_truthy JNull = False"
| "py_truthy (JBool b) = b"
| "py_truthy (JNum n) = (n \<noteq> 0)"
| "py_truthy (JStr s) = (s \<noteq> [])"
| "py_truthy (JList xs) = (xs \<noteq> [])"
| "py_truthy (JDict kv) = (kv \<noteq> [])"

text \<open>\<^verbatim>\<open>isinstance(x, dict)\<close>.\<close>

fun is_dict :: "json \<Rightarrow> bool" where
  "is_dict (JDict kv) = True"
| "is_dict _ = False"

definition dict_get :: "(pystr \<times> json) list \<Rightarrow> pystr \<Rightarrow> json \<Rightarrow> json" where
  "dict_get kv k dflt = (case map_of kv k of None \<Rightarrow> dflt | Some v \<Rightarrow> v)"

text \<open>
  \<^verbatim>\<open>x.get(key, default)\<close>: only a dictionary has the method, every other value raises
  AttributeError. A list or dictionary used as key is unhashable (TypeError); any other
  key that is not a string is never bound in a decoded dictionary.
\<close>

fun py_get :: "json \<Rightarrow> json \<Rightarrow> json \<Rightarrow> py_error + json" where
  "py_get (JDict kv) (JStr k) dflt = Inr (dict_get kv k dflt)"
| "py_get (JDict kv) (JList xs) dflt = Inl TypeError"
| "py_get (JDict kv) (JDict ks) dflt = Inl TypeError"
| "py_get (JDict kv) key dflt = Inr dflt"
| "py_get x key dflt = Inl AttributeError"

text \<open>\<^verbatim>\<open>x[key]\<close> with a string key: KeyError on a dictionary without the key.\<close>

fun py_getitem :: "json \<Rightarrow> pystr \<Rightarrow> py_error + json" where
  "py_getitem (JDict kv) k = (case map_of kv k of None \<Rightarrow> Inl KeyError | Some v \<Rightarrow> Inr v)"
| "py_getitem x k = Inl TypeError"

text \<open>
  Iteration (\<^verbatim>\<open>for x in v\<close>, and the argument of \<^verbatim>\<open>str.join\<close>): a list yields its
  elements, a string its characters, a dictionary its keys; nothing else is iterable.
\<close>

fun py_iter :: "json \<Rightarrow> py_error + json list" where
  "py_iter (JList xs) = Inr xs"
| "py_iter (JStr s) = Inr (map (\<lambda>c. JStr [c]) s)"
| "py_iter (JDict kv) = Inr (map (\<lambda>p. JStr (fst p)) kv)"
| "py_iter x = Inl TypeError"

fun join_strs :: "pystr \<Rightarrow> pystr list \<Rightarrow> pystr" where
  "join_strs sep [] = []"
| "join_strs sep [x] = x"
| "join_strs sep (x # y # ys) = x @ sep @ join_strs sep (y # ys)"

text \<open>\<^verbatim>\<open>sep.join(items)\<close> raises TypeError at the first item that is not a string.\<close>

fun as_strs :: "json list \<Rightarrow> py_error + pystr list" where
  "as_strs [] = Inr []"
| "as_strs (JStr s # xs) = (case as_strs xs of Inl e \<Rightarrow> Inl e | Inr ss \<Rightarrow> Inr (s # ss))"
| "as_strs (x # xs) = Inl TypeError"

definition str_join :: "pystr \<Rightarrow> json list \<Rightarrow> py_error + pystr" where
  "str_join sep items = (case as_strs items of Inl e \<Rightarrow> Inl e | Inr ss \<Rightarrow> Inr (join_strs sep ss))"

text \<open>The list comprehension \<^verbatim>\<open>[a[k] for a in xs]\<close>.\<close>

fun subscript_each :: "pystr \<Rightarrow> json list \<Rightarrow> py_error + json list" where
  "subscript_each k [] = Inr []"
| "subscript_each k (a # as) =
     (case py_getitem a k of
        Inl e \<Rightarrow> Inl e
      | Inr v \<Rightarrow> (case subscript_each k as of Inl e \<Rightarrow> Inl e | Inr vs \<Rightarrow> Inr (v # vs)))"

section \<open>Regular expression search\<close>

text \<open>
  \<^verbatim>\<open>re.search(pattern, string, re.IGNORECASE)\<close> for a pattern that is an alternation of
  literals, which is all the program uses. The subject is any \<^verbatim>\<open>str\<close>. The result is
  the span of the leftmost match, the alternatives tried in order, or \<open>None\<close>. A subject
  that is not a string raises TypeError.

  With the flag, the matcher compares the lower-case form of the subject's code point with
  the lower-case form of the pattern character and with the code points it holds
  equivalent to that form. \<open>ignorecase_class p\<close> lists the code points that a pattern
  character \<open>p\<close> below 256 matches in this way: the letter in both cases and, beyond the
  pair, U+0130 and U+0131 for i, U+212A for k, U+017F for s, U+039C and U+03BC for the
  micro sign, U+1E9E for the sharp s, U+212B for the a with ring and U+0178 for the y
  with diaeresis. The pattern of the program is ASCII; for a cased pattern character
  above 255 the class would be larger than the one given here.
\<close>

definition ignorecase_extra :: "nat \<Rightarrow> nat list" where
  "ignorecase_extra l =
     (if l = 105 then [304, 305]
      else if l = 107 then [8490]
      else if l = 115 then [383]
      else if l = 181 then [924, 956]
      else if l = 223 then [7838]
      else if l = 229 then [8491]
      else if l = 255 then [376]
      else [])"

definition ignorecase_class :: "nat \<Rightarrow> nat list" where
  "ignorecase_class p =
     (if (65 \<le> p \<and> p \<le> 90) \<or> (192 \<le> p \<and> p \<le> 222 \<and> p \<noteq> 215)
      then [p, p + 32] @ ignorecase_extra (p + 32)
      else if (97 \<le> p \<and> p \<le> 122) \<or> (224 \<le> p \<and> p \<le> 254 \<and> p \<noteq> 247)
      then [p - 32, p] @ ignorecase_extra p
      else [p] @ ignorecase_extra p)"

definition char_match :: "bool \<Rightarrow> nat \<Rightarrow> nat \<Rightarrow> bool" where
  "char_match ignorecase p c = (if ignorecase then c \<in> set (ignorecase_class p) else c = p)"

fun split_on :: "nat \<Rightarrow> pystr \<Rightarrow> pystr list" where
  "split_on d [] = [[]]"
| "split_on d (c # cs) =
     (if c = d then [] # split_on d cs
      else (case split_on d cs of [] \<Rightarrow> [[c]] | a # as \<Rightarrow> (c # a) # as))"

fun match_literal :: "bool \<Rightarrow> pystr \<Rightarrow> pystr \<Rightarrow> bool" where
  "match_literal ic [] s = True"
| "match_literal ic (p # ps) [] = False"
| "match_literal ic (p # ps) (c # cs) = (char_match ic p c \<and> match_literal ic ps cs)"

fun match_alts :: "bool \<Rightarrow> pystr list \<Rightarrow> pystr \<Rightarrow> nat option" where
  "match_alts ic [] s = None"
| "match_alts ic (a # as) s =
     (if match_literal ic a s then Some (length a) else match_alts ic as s)"

fun search_from :: "bool \<Rightarrow> pystr list \<Rightarrow> nat \<Rightarrow> pystr \<Rightarrow> (nat \<times> nat) option" where
  "search_from ic alts pos [] =
     (case match_alts ic alts [] of None \<Rightarrow> None | Some n \<Rightarrow> Some (pos, pos + n))"
| "search_from ic alts pos (c # cs) =
     (case match_alts ic alts (c # cs) of
        None \<Rightarrow> search_from ic alts (Suc pos) cs
      | Some n \<Rightarrow> Some (pos, pos + n))"

fun re_search :: "pystr \<Rightarrow> json \<Rightarrow> bool \<Rightarrow> py_error + (nat \<times> nat) option" where
  "re_search pattern (JStr s) ignorecase =
     Inr (search_from ignorecase (split_on (of_char (CHR ''|'')) pattern) 0 s)"
| "re_search pattern x ignorecase = Inl TypeError"

section \<open>The program\<close>

subsection \<open>The environment: network, file system, console\<close>

text \<open>
  \<^verbatim>\<open>requests.get\<close> is the environment's answer to a request: an exception of the
  transport or a response with a status code and a body, \<open>None\<close> when the body is not
  JSON. Every call is appended to \<open>requests_made\<close>. \<^verbatim>\<open>print\<close> appends to \<open>stdout\<close>;
  a file opened for writing is appended to \<open>files\<close> with the field names and the lines
  the CSV writer wrote.
\<close>

record request =
  url :: pystr
  params :: "(pystr \<times> json) list"

record response =
  status_code :: nat
  body :: "json option"

record env =
  net :: "request \<Rightarrow> py_error + response"
  can_open :: "pystr \<Rightarrow> bool"

datatype printed = PStr pystr | PObj json

record csv_file =
  fieldnames :: "pystr list"
  csv_lines :: "json list list"

record world =
  requests_made :: "request list"
  stdout :: "printed list"
  files :: "(pystr \<times> csv_file) list"

record args =
  query :: pystr
  file_arg :: "pystr option"

definition http_get :: "env \<Rightarrow> request \<Rightarrow> world \<Rightarrow> (py_error + response) \<times> world" where
  "http_get e req w = (net e req, w\<lparr>requests_made := requests_made w @ [req]\<rparr>)"

definition print :: "printed \<Rightarrow> world \<Rightarrow> world" where
  "print x w = w\<lparr>stdout := stdout w @ [x]\<rparr>"

text \<open>\<^verbatim>\<open>response.raise_for_status()\<close> raises for the status codes 400 to 599.\<close>

definition raise_for_status :: "response \<Rightarrow> py_error + unit" where
  "raise_for_status r =
     (if 400 \<le> status_code r \<and> status_code r < 600 then Inl HTTPError else Inr ())"

definition response_json :: "response \<Rightarrow> py_error + json" where
  "response_json r = (case body r of None \<Rightarrow> Inl JSONDecodeError | Some data \<Rightarrow> Inr data)"

definition PUBMED_API_URL :: pystr where
  "PUBMED_API_URL = str_of ''https://eutils.ncbi.nlm.nih.gov/entrez/eutils/esearch.fcgi''"

definition DETAILS_API_URL :: pystr where
  "DETAILS_API_URL = str_of ''https://eutils.ncbi.nlm.nih.gov/entrez/eutils/esummary.fcgi''"

subsection \<open>fetch_paper_ids\<close>

definition search_request :: "pystr \<Rightarrow> request" where
  "search_request q =
     \<lparr>url = PUBMED_API_URL,
      params = [(str_of ''db'', JStr (str_of ''pubmed'')), (str_of ''term'', JStr q),
                (str_of ''retmax'', JNum 10), (str_of ''retmode'', JStr (str_of ''json''))]\<rparr>"

definition fetch_paper_ids :: "env \<Rightarrow> pystr \<Rightarrow> world \<Rightarrow> (py_error + json) \<times> world" where
  "fetch_paper_ids e q w =
     (case http_get e (search_request q) w of
        (Inl err, w1) \<Rightarrow> (Inl err, w1)
      | (Inr resp, w1) \<Rightarrow>
          (case raise_for_status resp of
             Inl err \<Rightarrow> (Inl err, w1)
           | Inr u \<Rightarrow>
               (case response_json resp of
                  Inl err \<Rightarrow> (Inl err, w1)
                | Inr data \<Rightarrow>
                    (case py_get data (JStr (str_of ''esearchresult'')) (JDict []) of
                       Inl err \<Rightarrow> (Inl err, w1)
                     | Inr r \<Rightarrow> (py_get r (JStr (str_of ''idlist'')) (JList []), w1)))))"

subsection \<open>fetch_paper_details\<close>

definition details_request :: "pystr \<Rightarrow> request" where
  "details_request joined =
     \<lparr>url = DETAILS_API_URL,
      params = [(str_of ''db'', JStr (str_of ''pubmed'')), (str_of ''id'', JStr joined),
                (str_of ''retmode'', JStr (str_of ''json''))]\<rparr>"

text \<open>
  The loop over the ids; \<open>papers\<close> is the list built so far. The source iterates the
  ids twice, in \<^verbatim>\<open>",".join(paper_ids)\<close> and in the loop; the value is immutable, so
  both see the same elements and \<open>fetch_paper_details\<close> iterates once.
\<close>

fun collect_papers :: "json \<Rightarrow> json list \<Rightarrow> json list \<Rightarrow> py_error + json list" where
  "collect_papers data [] papers = Inr papers"
| "collect_papers data (paper_id # rest) papers =
     (case py_get data (JStr (str_of ''result'')) (JDict []) of
        Inl err \<Rightarrow> Inl err
      | Inr result \<Rightarrow>
          (case py_get result paper_id (JDict []) of
             Inl err \<Rightarrow> Inl err
           | Inr paper_data \<Rightarrow>
               if is_dict paper_data then collect_papers data rest (papers @ [paper_data])
               else collect_papers data rest papers))"

definition fetch_paper_details ::
    "env \<Rightarrow> json \<Rightarrow> world \<Rightarrow> (py_error + json list) \<times> world" where
  "fetch_paper_details e paper_ids w =
     (if \<not> py_truthy paper_ids then (Inr [], w)
      else
        (case py_iter paper_ids of
           Inl err \<Rightarrow> (Inl err, w)
         | Inr ids \<Rightarrow>
             (case str_join (str_of '','') ids of
                Inl err \<Rightarrow> (Inl err, w)
              | Inr joined \<Rightarrow>
                  (case http_get e (details_request joined) w of
                     (Inl err, w1) \<Rightarrow> (Inl err, w1)
                   | (Inr resp, w1) \<Rightarrow>
                       (case raise_for_status resp of
                          Inl err \<Rightarrow> (Inl err, w1)
                        | Inr u \<Rightarrow>
                            (case response_json resp of
                               Inl err \<Rightarrow> (Inl err, w1)
                             | Inr data \<Rightarrow> (collect_papers data ids [], w1)))))))"

subsection \<open>identify_non_academic_authors\<close>

text \<open>The loop over the authors; \<open>non_academic\<close> is the list built so far.\<close>

fun classify_authors :: "json list \<Rightarrow> json list \<Rightarrow> py_error + json list" where
  "classify_authors [] non_academic = Inr non_academic"
| "classify_authors (author # rest) non_academic =
     (case py_get author (JStr (str_of ''affiliation'')) (JStr []) of
        Inl err \<Rightarrow> Inl err
      | Inr affiliation \<Rightarrow>
          if \<not> py_truthy affiliation then classify_authors rest non_academic
          else
            (case re_search (str_of ''university|college|institute|lab'') affiliation True of
               Inl err \<Rightarrow> Inl err
             | Inr (Some m) \<Rightarrow> classify_authors rest non_academic
             | Inr None \<Rightarrow>
                 (case py_get author (JStr (str_of ''name'')) JNull of
                    Inl err \<Rightarrow> Inl err
                  | Inr nm \<Rightarrow>
                      classify_authors rest
                        (non_academic @ [JDict [(str_of ''name'', nm), (str_of ''affiliation'', affiliation)]]))))"

definition identify_non_academic_authors :: "json \<Rightarrow> py_error + json list" where
  "identify_non_academic_authors authors =
     (case py_iter authors of Inl err \<Rightarrow> Inl err | Inr as \<Rightarrow> classify_authors as [])"

subsection \<open>write_to_csv\<close>

definition csv_header :: "pystr list" where
  "csv_header = [str_of ''PubmedID'', str_of ''Title'', str_of ''Publication Date'',
                 str_of ''Non-academic Authors'', str_of ''Company Affiliations'',
                 str_of ''Corresponding Author Email'']"

text \<open>
  \<^verbatim>\<open>DictWriter.writerow\<close>: a row that is not a dictionary has no \<^verbatim>\<open>keys\<close>
  (AttributeError), a dictionary with a key outside the field names raises ValueError,
  and otherwise the cells are the values of the field names in order, the empty string
  for a field the row does not have. The line is then encoded as UTF-8, which raises
  UnicodeEncodeError for a cell that is a string with a surrogate code point. The cells
  are kept as values; their rendering as text is not modelled further.
\<close>

definition is_surrogate :: "nat \<Rightarrow> bool" where
  "is_surrogate c = (55296 \<le> c \<and> c \<le> 57343)"

fun encodable :: "json \<Rightarrow> bool" where
  "encodable (JStr s) = list_all (\<lambda>c. \<not> is_surrogate c) s"
| "encodable v = True"

fun dict_to_list :: "pystr list \<Rightarrow> json \<Rightarrow> py_error + json list" where
  "dict_to_list names (JDict kv) =
     (if list_ex (\<lambda>k. k \<notin> set names) (map fst kv) then Inl ValueError
      else Inr (map (\<lambda>k. dict_get kv k (JStr [])) names))"
| "dict_to_list names row = Inl AttributeError"

definition write_line :: "pystr list \<Rightarrow> json \<Rightarrow> py_error + json list" where
  "write_line names row =
     (case dict_to_list names row of
        Inl err \<Rightarrow> Inl err
      | Inr cells \<Rightarrow> if list_all encodable cells then Inr cells else Inl UnicodeEncodeError)"

text \<open>
  The loop over the rows; \<open>written\<close> are the lines in the file so far. An exception
  leaves the lines written before it in the file, which the \<^verbatim>\<open>with\<close> block closes.
\<close>

fun write_rows :: "pystr list \<Rightarrow> json list \<Rightarrow> json list list \<Rightarrow> py_error option \<times> json list list" where
  "write_rows names [] written = (None, written)"
| "write_rows names (row # rest) written =
     (case write_line names row of
        Inl err \<Rightarrow> (Some err, written)
      | Inr cells \<Rightarrow> write_rows names rest (written @ [cells]))"

text \<open>
  A file that cannot be opened raises OSError and nothing is written. Otherwise the file
  holds the header line and the lines of the rows.
\<close>

definition write_to_csv :: "env \<Rightarrow> json list \<Rightarrow> pystr \<Rightarrow> world \<Rightarrow> (py_error + unit) \<times> world" where
  "write_to_csv e results filename w =
     (if \<not> can_open e filename then (Inl OSError, w)
      else
        (case write_rows csv_header results [map JStr csv_header] of
           (err, written) \<Rightarrow>
             ((case err of None \<Rightarrow> Inr () | Some x \<Rightarrow> Inl x),
              w\<lparr>files := files w @ [(filename, \<lparr>fieldnames = csv_header, csv_lines = written\<rparr>)]\<rparr>)))"

subsection \<open>main\<close>

text \<open>\<^verbatim>\<open>s or "N/A"\<close> on a string.\<close>

definition or_na :: "pystr \<Rightarrow> pystr" where
  "or_na s = (if s \<noteq> [] then s else str_of ''N/A'')"

text \<open>The body of the loop over the papers, for a paper that passed the dictionary test.\<close>

definition project_row :: "json \<Rightarrow> py_error + json" where
  "project_row paper =
     (case py_get paper (JStr (str_of ''authors'')) (JList []) of
        Inl err \<Rightarrow> Inl err
      | Inr authors \<Rightarrow>
     (case identify_non_academic_authors authors of
        Inl err \<Rightarrow> Inl err
      | Inr non_academic_authors \<Rightarrow>
     (case py_get paper (JStr (str_of ''uid'')) JNull of
        Inl err \<Rightarrow> Inl err
      | Inr uid \<Rightarrow>
     (case py_get paper (JStr (str_of ''title'')) (JStr (str_of ''N/A'')) of
        Inl err \<Rightarrow> Inl err
      | Inr title \<Rightarrow>
     (case py_get paper (JStr (str_of ''pubdate'')) (JStr (str_of ''N/A'')) of
        Inl err \<Rightarrow> Inl err
      | Inr pubdate \<Rightarrow>
     (case subscript_each (str_of ''name'') non_academic_authors of
        Inl err \<Rightarrow> Inl err
      | Inr names \<Rightarrow>
     (case str_join (str_of '', '') names of
        Inl err \<Rightarrow> Inl err
      | Inr joined_names \<Rightarrow>
     (case subscript_each (str_of ''affiliation'') non_academic_authors of
        Inl err \<Rightarrow> Inl err
      | Inr affiliations \<Rightarrow>
     (case str_join (str_of '', '') affiliations of
        Inl err \<Rightarrow> Inl err
      | Inr joined_affiliations \<Rightarrow>
     (case py_get paper (JStr (str_of ''corresponding_author'')) (JStr (str_of ''N/A'')) of
        Inl err \<Rightarrow> Inl err
      | Inr email \<Rightarrow>
          Inr (JDict [(str_of ''PubmedID'', uid),
                      (str_of ''Title'', title),
                      (str_of ''Publication Date'', pubdate),
                      (str_of ''Non-academic Authors'', JStr (or_na joined_names)),
                      (str_of ''Company Affiliations'', JStr (or_na joined_affiliations)),
                      (str_of ''Corresponding Author Email'', email)])))))))))))"

fun build_results :: "json list \<Rightarrow> json list \<Rightarrow> py_error + json list" where
  "build_results [] results = Inr results"
| "build_results (paper # rest) results =
     (if \<not> is_dict paper then build_results rest results
      else
        (case project_row paper of
           Inl err \<Rightarrow> Inl err
         | Inr row \<Rightarrow> build_results rest (results @ [row])))"

text \<open>
  The test \<^verbatim>\<open>if args.file\<close>: the file to write is the value of the option when it was
  given and is not the empty string.
\<close>

definition output_file :: "args \<Rightarrow> pystr option" where
  "output_file a =
     (case file_arg a of None \<Rightarrow> None | Some f \<Rightarrow> if f \<noteq> [] then Some f else None)"

text \<open>
  \<open>main\<close> takes the command line as \<^verbatim>\<open>parse_args\<close> returns it: the query and the
  value of \<^verbatim>\<open>-f/--file\<close>, if given. It returns the exception that ends the run, or
  \<open>None\<close> when the run ends normally, and the world it leaves.
\<close>

definition main :: "env \<Rightarrow> args \<Rightarrow> world \<Rightarrow> py_error option \<times> world" where
  "main e a w =
     (case fetch_paper_ids e (query a) w of
        (Inl err, w1) \<Rightarrow> (Some err, w1)
      | (Inr paper_ids, w1) \<Rightarrow>
          if \<not> py_truthy paper_ids then (None, print (PStr (str_of ''No papers found.'')) w1)
          else
            (case fetch_paper_details e paper_ids w1 of
               (Inl err, w2) \<Rightarrow> (Some err, w2)
             | (Inr papers, w2) \<Rightarrow>
                 (case build_results papers [] of
                    Inl err \<Rightarrow> (Some err, w2)
                  | Inr results \<Rightarrow>
                      (case output_file a of
                         Some filename \<Rightarrow>
                           (case write_to_csv e results filename w2 of
                              (Inl err, w3) \<Rightarrow> (Some err, w3)
                            | (Inr u, w3) \<Rightarrow>
                                (None, print (PStr (str_of ''Results saved to '' @ filename)) w3))
                       | None \<Rightarrow>
                           (None, foldl (\<lambda>w' res. print (PObj res) w') w2 results)))))"

section \<open>Notions of the specification\<close>

subsection \<open>Classification\<close>

text \<open>
  The keywords of the classification rule, and what it means for an affiliation to
  contain one of them ignoring case: the keyword is a contiguous part of the affiliation
  once both are put in lower case. \<open>str_lower\<close> is \<^verbatim>\<open>str.lower\<close>, exact on the code
  points below 256 and on the two others whose lower-case form holds an ASCII character:
  U+0130, whose form is i followed by U+0307, and U+212A, whose form is k. Every other
  code point is kept as it is; its lower-case form holds no ASCII character, so this does
  not bear on whether an ASCII keyword is contained.
\<close>

definition academic_keywords :: "pystr list" where
  "academic_keywords =
     [str_of ''university'', str_of ''college'', str_of ''institute'', str_of ''lab'']"

definition lower1 :: "nat \<Rightarrow> nat" where
  "lower1 c =
     (if (65 \<le> c \<and> c \<le> 90) \<or> (192 \<le> c \<and> c \<le> 222 \<and> c \<noteq> 215) then c + 32
      else if c = 8490 then 107
      else c)"

definition py_lower :: "nat \<Rightarrow> pystr" where
  "py_lower c = (if c = 304 then [105, 775] else [lower1 c])"

definition str_lower :: "pystr \<Rightarrow> pystr" where
  "str_lower s = concat (map py_lower s)"

definition contains_ignoring_case :: "pystr \<Rightarrow> pystr \<Rightarrow> bool" where
  "contains_ignoring_case kw s = sublist (str_lower kw) (str_lower s)"

definition mentions_academic_keyword :: "pystr \<Rightarrow> bool" where
  "mentions_academic_keyword s = (\<exists>kw \<in> set academic_keywords. contains_ignoring_case kw s)"

text \<open>
  The wider notion that the program implements. A code point of the affiliation stands
  for a lower-case letter of a keyword when it is that letter in lower or upper case,
  or the letter is i and the code point is U+0130 or U+0131, or the letter is s and the
  code point is U+017F. A keyword is found in an affiliation when some contiguous part of
  the affiliation stands for it letter by letter.
\<close>

definition stands_for :: "nat \<Rightarrow> nat \<Rightarrow> bool" where
  "stands_for p c =
     (c = p \<or> c + 32 = p \<or> (p = 105 \<and> (c = 304 \<or> c = 305)) \<or> (p = 115 \<and> c = 383))"

definition keyword_found :: "pystr \<Rightarrow> bool" where
  "keyword_found s =
     (\<exists>kw \<in> set academic_keywords. \<exists>part \<in> set (sublists s). list_all2 stands_for kw part)"

text \<open>
  An author record of the data model: a dictionary whose name and affiliation are each
  absent, \<^verbatim>\<open>None\<close> or a string.
\<close>

fun optional_str :: "json option \<Rightarrow> bool" where
  "optional_str None = True"
| "optional_str (Some JNull) = True"
| "optional_str (Some (JStr s)) = True"
| "optional_str (Some v) = False"

fun author_record :: "json \<Rightarrow> bool" where
  "author_record (JDict kv) =
     (optional_str (map_of kv (str_of ''name''))
      \<and> optional_str (map_of kv (str_of ''affiliation'')))"
| "author_record v = False"

text \<open>
  The rule as a filter: an author is flagged when the affiliation is a non-empty string
  in which no keyword is found, and the entry reported for an author is the name and
  affiliation as given.
\<close>

definition flagged :: "json \<Rightarrow> bool" where
  "flagged a =
     (case py_get a (JStr (str_of ''affiliation'')) (JStr []) of
        Inr (JStr s) \<Rightarrow> s \<noteq> [] \<and> \<not> keyword_found s
      | _ \<Rightarrow> False)"

definition flag_entry :: "json \<Rightarrow> json" where
  "flag_entry a =
     JDict [(str_of ''name'',
               (case py_get a (JStr (str_of ''name'')) JNull of Inr v \<Rightarrow> v | Inl e \<Rightarrow> JNull)),
            (str_of ''affiliation'',
               (case py_get a (JStr (str_of ''affiliation'')) (JStr []) of
                  Inr v \<Rightarrow> v
                | Inl e \<Rightarrow> JNull))]"

definition flag_dict :: "json \<times> pystr \<Rightarrow> json" where
  "flag_dict p = JDict [(str_of ''name'', fst p), (str_of ''affiliation'', JStr (snd p))]"

text \<open>Whitespace as \<^verbatim>\<open>str.isspace\<close> has it.\<close>

definition py_isspace :: "nat \<Rightarrow> bool" where
  "py_isspace c =
     (c \<in> {9, 10, 11, 12, 13, 28, 29, 30, 31, 32, 133, 160, 5760,
           8192, 8193, 8194, 8195, 8196, 8197, 8198, 8199, 8200, 8201, 8202,
           8232, 8233, 8239, 8287, 12288})"

definition whitespace_only :: "pystr \<Rightarrow> bool" where
  "whitespace_only s = (s \<noteq> [] \<and> list_all py_isspace s)"

definition affiliation_absent_or_empty :: "(pystr \<times> json) list \<Rightarrow> bool" where
  "affiliation_absent_or_empty kv =
     (case map_of kv (str_of ''affiliation'') of
        None \<Rightarrow> True
      | Some v \<Rightarrow> v = JNull \<or> v = JStr [])"

subsection \<open>Search and detail responses\<close>

text \<open>
  A body lacks the path esearchresult.idlist when following the two keys from the body
  does not arrive at a value. The narrower notion is that of a missing key: the body is
  an object, and esearchresult is not bound in it or is bound to an object that does not
  bind idlist.
\<close>

fun lacks_idlist_path :: "json \<Rightarrow> bool" where
  "lacks_idlist_path (JDict obj) =
     (case map_of obj (str_of ''esearchresult'') of
        None \<Rightarrow> True
      | Some (JDict r) \<Rightarrow> map_of r (str_of ''idlist'') = None
      | Some v \<Rightarrow> True)"
| "lacks_idlist_path v = True"

fun idlist_key_absent :: "json \<Rightarrow> bool" where
  "idlist_key_absent (JDict obj) =
     (case map_of obj (str_of ''esearchresult'') of
        None \<Rightarrow> True
      | Some (JDict r) \<Rightarrow> map_of r (str_of ''idlist'') = None
      | Some v \<Rightarrow> False)"
| "idlist_key_absent v = False"

text \<open>
  The records detail retrieval yields for one id. As the specification words it, an id
  yields its entry when that is a dictionary and nothing otherwise
  (\<open>claimed_record_for\<close>); in the program an id without entry yields the empty
  dictionary (\<open>record_for\<close>).
\<close>

definition claimed_record_for :: "(pystr \<times> json) list \<Rightarrow> pystr \<Rightarrow> json list" where
  "claimed_record_for result i =
     (case map_of result i of
        None \<Rightarrow> []
      | Some v \<Rightarrow> if is_dict v then [v] else [])"

definition record_for :: "(pystr \<times> json) list \<Rightarrow> pystr \<Rightarrow> json list" where
  "record_for result i =
     (case map_of result i of
        None \<Rightarrow> [JDict []]
      | Some v \<Rightarrow> if is_dict v then [v] else [])"

subsection \<open>Report rows\<close>

definition has_str_name :: "json \<Rightarrow> bool" where
  "has_str_name a =
     (case py_getitem a (str_of ''name'') of Inr (JStr s) \<Rightarrow> True | _ \<Rightarrow> False)"

text \<open>A field of the row a projection produced, if it produced one.\<close>

definition field_of :: "py_error + json \<Rightarrow> pystr \<Rightarrow> py_error + json" where
  "field_of r k = (case r of Inl e \<Rightarrow> Inl e | Inr row \<Rightarrow> py_getitem row k)"

subsection \<open>Concrete environments\<close>

definition world0 :: world where
  "world0 = \<lparr>requests_made = [], stdout = [], files = []\<rparr>"

text \<open>An endpoint that answers every request with the given status and JSON body.\<close>

definition respond :: "nat \<Rightarrow> json \<Rightarrow> env" where
  "respond code data =
     \<lparr>net = (\<lambda>req. Inr \<lparr>status_code = code, body = Some data\<rparr>), can_open = (\<lambda>f. True)\<rparr>"

section \<open>Lemmas\<close>

subsection \<open>Literals\<close>

lemma str_of_eq [simp]: "(str_of a = str_of b) = (a = b)"
  by (simp add: str_of_def inj_of_char)

lemma str_of_Nil [simp]: "str_of [] = []"
  by (simp add: str_of_def)

lemma str_of_eq_Nil [simp]: "(str_of a = []) = (a = [])"
  by (simp add: str_of_def)

lemma str_of_append: "str_of (a @ b) = str_of a @ str_of b"
  by (simp add: str_of_def)

subsection \<open>The search finds a match exactly when a keyword is found\<close>

lemma pattern_alternatives:
  "split_on 124 (str_of ''university|college|institute|lab'') = academic_keywords"
  by (simp add: academic_keywords_def str_of_def)

lemma match_literal_prefix:
  "match_literal ic a s = (\<exists>part. prefix part s \<and> list_all2 (char_match ic) a part)"
proof (induction ic a s rule: match_literal.induct)
  case (1 ic s)
  show ?case by simp
next
  case (2 ic p ps)
  show ?case by (simp add: list_all2_Cons1)
next
  case (3 ic p ps c cs)
  show ?case
  proof
    assume "match_literal ic (p # ps) (c # cs)"
    then obtain part where "char_match ic p c" and "prefix part cs"
      and "list_all2 (char_match ic) ps part"
      using "3.IH" by auto
    then have "prefix (c # part) (c # cs) \<and> list_all2 (char_match ic) (p # ps) (c # part)"
      by simp
    then show "\<exists>part. prefix part (c # cs) \<and> list_all2 (char_match ic) (p # ps) part"
      by blast
  next
    assume "\<exists>part. prefix part (c # cs) \<and> list_all2 (char_match ic) (p # ps) part"
    then obtain z zs where "prefix (z # zs) (c # cs)" and "char_match ic p z"
      and "list_all2 (char_match ic) ps zs"
      by (auto simp: list_all2_Cons1)
    then show "match_literal ic (p # ps) (c # cs)"
      using "3.IH" by auto
  qed
qed

lemma match_alts_None:
  "(match_alts ic alts s = None) = (\<forall>a \<in> set alts. \<not> match_literal ic a s)"
  by (induction alts) auto

lemma search_from_None:
  "(search_from ic alts pos s = None)
   = (\<forall>a \<in> set alts. \<not> (\<exists>part. sublist part s \<and> list_all2 (char_match ic) a part))"
proof (induction s arbitrary: pos)
  case Nil
  have "(search_from ic alts pos [] = None) = (match_alts ic alts [] = None)"
    by (simp split: option.splits)
  then show ?case
    by (simp add: match_alts_None match_literal_prefix)
next
  case (Cons c cs)
  have "(search_from ic alts pos (c # cs) = None)
        = (match_alts ic alts (c # cs) = None \<and> search_from ic alts (Suc pos) cs = None)"
    by (simp split: option.splits)
  then show ?case
    unfolding Cons.IH match_alts_None match_literal_prefix sublist_Cons_right
    by blast
qed

lemma keyword_letters:
  assumes "kw \<in> set academic_keywords" and "p \<in> set kw"
  shows "97 \<le> p \<and> p \<le> 122 \<and> p \<noteq> 107"
  using assms by (auto simp: academic_keywords_def str_of_def)

lemma letter_class:
  assumes "97 \<le> p \<and> p \<le> 122 \<and> p \<noteq> 107"
  shows "char_match True p c = stands_for p c"
  using assms
  by (auto simp: char_match_def ignorecase_class_def ignorecase_extra_def stands_for_def)

lemma keyword_match:
  assumes "kw \<in> set academic_keywords"
  shows "list_all2 (char_match True) kw part = list_all2 stands_for kw part"
  by (rule list.rel_cong) (simp_all add: keyword_letters [OF assms] letter_class)

lemma search_keywords_None:
  "(search_from True academic_keywords 0 s = None) = (\<not> keyword_found s)"
proof -
  have "(\<exists>part. sublist part s \<and> list_all2 (char_match True) kw part)
        = (\<exists>part \<in> set (sublists s). list_all2 stands_for kw part)"
    if "kw \<in> set academic_keywords" for kw
    using keyword_match [OF that] by auto
  then show ?thesis
    unfolding search_from_None keyword_found_def by blast
qed

lemma keyword_found_search:
  "keyword_found s = (search_from True academic_keywords 0 s \<noteq> None)"
  by (simp add: search_keywords_None)

lemma re_search_None:
  "(re_search (str_of ''university|college|institute|lab'') (JStr s) True = Inr None)
   = (\<not> keyword_found s)"
  by (simp add: pattern_alternatives search_keywords_None del: split_on.simps)

lemma re_search_Some:
  assumes "keyword_found s"
  shows "\<exists>m. re_search (str_of ''university|college|institute|lab'') (JStr s) True = Inr (Some m)"
proof -
  have "search_from True academic_keywords 0 s \<noteq> None"
    using assms by (simp add: search_keywords_None)
  then show ?thesis
    by (auto simp: pattern_alternatives simp del: split_on.simps)
qed

subsection \<open>Away from three code points, found is contained ignoring case\<close>

lemma str_lower_map: "304 \<notin> set s \<Longrightarrow> str_lower s = map lower1 s"
  by (induction s) (simp_all add: str_lower_def py_lower_def)

lemma keyword_lower:
  assumes "kw \<in> set academic_keywords"
  shows "str_lower kw = kw"
  using assms by (auto simp: academic_keywords_def str_of_def str_lower_def py_lower_def lower1_def)

lemma sublist_of_map:
  "sublist ys (map f xs) = (\<exists>part. sublist part xs \<and> map f part = ys)"
proof
  assume "sublist ys (map f xs)"
  then obtain ps ss where eq: "map f xs = ps @ ys @ ss"
    by (auto simp: sublist_def)
  let ?part = "take (length ys) (drop (length ps) xs)"
  have "map f ?part = take (length ys) (drop (length ps) (map f xs))"
    by (simp add: take_map drop_map)
  also have "\<dots> = ys"
    unfolding eq by simp
  finally have "map f ?part = ys" .
  moreover have "sublist ?part (drop (length ps) xs)" and "sublist (drop (length ps) xs) xs"
    by simp_all
  then have "sublist ?part xs"
    by (rule sublist_order.order_trans)
  ultimately show "\<exists>part. sublist part xs \<and> map f part = ys"
    by blast
next
  assume "\<exists>part. sublist part xs \<and> map f part = ys"
  then show "sublist ys (map f xs)"
    using map_mono_sublist by blast
qed

lemma lower1_stands_for:
  assumes "97 \<le> p \<and> p \<le> 122 \<and> p \<noteq> 107" and "c \<noteq> 304" and "c \<noteq> 305" and "c \<noteq> 383"
  shows "(lower1 c = p) = stands_for p c"
  using assms by (auto simp: lower1_def stands_for_def)

lemma lowered_part:
  assumes "kw \<in> set academic_keywords"
    and "304 \<notin> set part" and "305 \<notin> set part" and "383 \<notin> set part"
  shows "(map lower1 part = kw) = list_all2 stands_for kw part"
proof -
  have "(map lower1 part = kw) = list_all2 (\<lambda>p c. lower1 c = p) kw part"
    by (auto simp: list_all2_conv_all_nth list_eq_iff_nth_eq)
  also have "\<dots> = list_all2 stands_for kw part"
  proof (rule list.rel_cong)
    fix p c
    assume "p \<in> set kw" and "c \<in> set part"
    then show "(lower1 c = p) = stands_for p c"
      using keyword_letters [OF assms(1)] assms(2-4) by (intro lower1_stands_for) auto
  qed simp_all
  finally show ?thesis .
qed

lemma found_is_contained:
  assumes "304 \<notin> set s" and "305 \<notin> set s" and "383 \<notin> set s"
  shows "keyword_found s = mentions_academic_keyword s"
proof -
  have "(\<exists>part. sublist part s \<and> list_all2 stands_for kw part)
        = sublist (str_lower kw) (str_lower s)"
    if kw: "kw \<in> set academic_keywords" for kw
  proof -
    have "(sublist part s \<and> list_all2 stands_for kw part)
          = (sublist part s \<and> map lower1 part = kw)" for part
    proof (cases "sublist part s")
      case True
      then have "set part \<subseteq> set s"
        by (rule set_mono_sublist)
      then show ?thesis
        using lowered_part [OF kw, of part] assms True by auto
    next
      case False
      then show ?thesis by simp
    qed
    then show ?thesis
      by (simp add: keyword_lower [OF kw] str_lower_map [OF assms(1)] sublist_of_map)
  qed
  then have "(\<exists>part \<in> set (sublists s). list_all2 stands_for kw part)
             = contains_ignoring_case kw s"
    if "kw \<in> set academic_keywords" for kw
    using that by (simp add: contains_ignoring_case_def Bex_def)
  then show ?thesis
    unfolding keyword_found_def mentions_academic_keyword_def by blast
qed

subsection \<open>The loop over the authors\<close>

lemma classify_authors_Cons:
  "classify_authors (a # rest) acc =
     (case classify_authors [a] [] of
        Inl e \<Rightarrow> Inl e
      | Inr one \<Rightarrow> classify_authors rest (acc @ one))"
  by (simp split: sum.splits option.splits)

lemma classify_authors_acc:
  "classify_authors xs acc =
     (case classify_authors xs [] of Inl e \<Rightarrow> Inl e | Inr out \<Rightarrow> Inr (acc @ out))"
proof (induction xs arbitrary: acc)
  case Nil
  show ?case by simp
next
  case (Cons a xs)
  show ?case
  proof (cases "classify_authors [a] []")
    case (Inl e)
    then show ?thesis
      by (simp add: classify_authors_Cons [of a xs] del: classify_authors.simps)
  next
    case (Inr one)
    have "classify_authors (a # xs) acc = classify_authors xs (acc @ one)"
      using Inr by (simp add: classify_authors_Cons [of a xs] del: classify_authors.simps)
    moreover have "classify_authors (a # xs) [] = classify_authors xs one"
      using Inr by (simp add: classify_authors_Cons [of a xs] del: classify_authors.simps)
    ultimately show ?thesis
      using Cons.IH [of "acc @ one"] Cons.IH [of one]
      by (simp split: sum.splits)
  qed
qed

lemma classify_authors_append:
  "classify_authors (xs @ ys) [] =
     (case classify_authors xs [] of
        Inl e \<Rightarrow> Inl e
      | Inr before \<Rightarrow>
          (case classify_authors ys [] of Inl e \<Rightarrow> Inl e | Inr after \<Rightarrow> Inr (before @ after)))"
proof (induction xs)
  case Nil
  show ?case by (simp split: sum.splits)
next
  case (Cons a xs)
  show ?case
  proof (cases "classify_authors [a] []")
    case (Inl e)
    then show ?thesis
      by (simp add: classify_authors_Cons [of a "xs @ ys"] classify_authors_Cons [of a xs]
          del: classify_authors.simps)
  next
    case (Inr one)
    have l: "classify_authors ((a # xs) @ ys) [] = classify_authors (xs @ ys) one"
      using Inr by (simp add: classify_authors_Cons [of a "xs @ ys"] del: classify_authors.simps)
    have r: "classify_authors (a # xs) [] = classify_authors xs one"
      using Inr by (simp add: classify_authors_Cons [of a xs] del: classify_authors.simps)
    show ?thesis
      unfolding l r
      using Cons.IH classify_authors_acc [of "xs @ ys" one] classify_authors_acc [of xs one]
      by (simp split: sum.splits)
  qed
qed

lemma classify_one_falsy:
  assumes "py_get a (JStr (str_of ''affiliation'')) (JStr []) = Inr v" and "\<not> py_truthy v"
  shows "classify_authors [a] [] = Inr []"
  using assms by simp

lemma classify_one_str:
  assumes "py_get a (JStr (str_of ''affiliation'')) (JStr []) = Inr (JStr s)" and "s \<noteq> []"
    and "py_get a (JStr (str_of ''name'')) JNull = Inr nm"
  shows "classify_authors [a] [] =
           Inr (if keyword_found s then []
                else [JDict [(str_of ''name'', nm), (str_of ''affiliation'', JStr s)]])"
proof (cases "keyword_found s")
  case True
  then obtain m where "re_search (str_of ''university|college|institute|lab'') (JStr s) True = Inr (Some m)"
    using re_search_Some by blast
  then show ?thesis
    using assms True by (simp del: re_search.simps)
next
  case False
  then have "re_search (str_of ''university|college|institute|lab'') (JStr s) True = Inr None"
    by (simp add: re_search_None del: re_search.simps)
  then show ?thesis
    using assms False by (simp del: re_search.simps)
qed

lemma classify_one_record:
  assumes "author_record a"
  shows "classify_authors [a] [] = Inr (if flagged a then [flag_entry a] else [])"
proof (cases a)
  case (JDict kv)
  then have o: "optional_str (map_of kv (str_of ''affiliation''))"
    using assms by simp
  have n: "py_get a (JStr (str_of ''name'')) JNull = Inr (dict_get kv (str_of ''name'') JNull)"
    using JDict by simp
  show ?thesis
  proof (cases "map_of kv (str_of ''affiliation'')")
    case None
    then have "py_get a (JStr (str_of ''affiliation'')) (JStr []) = Inr (JStr [])"
      using JDict by (simp add: dict_get_def)
    then show ?thesis
      using classify_one_falsy [of a "JStr []"] by (simp add: flagged_def)
  next
    case (Some v)
    then have g: "py_get a (JStr (str_of ''affiliation'')) (JStr []) = Inr v"
      using JDict by (simp add: dict_get_def)
    show ?thesis
    proof (cases v)
      case JNull
      then show ?thesis
        using g classify_one_falsy [of a JNull] by (simp add: flagged_def)
    next
      case (JStr s)
      show ?thesis
      proof (cases "s = []")
        case True
        then show ?thesis
          using g JStr classify_one_falsy [of a "JStr []"] by (simp add: flagged_def)
      next
        case False
        then show ?thesis
          using classify_one_str [of a s, OF _ False n] g n JStr
          by (simp add: flagged_def flag_entry_def del: classify_authors.simps)
      qed
    qed (use o Some in simp_all)
  qed
qed (use assms in simp_all)

lemma classify_records:
  "list_all author_record xs \<Longrightarrow>
   classify_authors xs [] = Inr (map flag_entry (filter flagged xs))"
proof (induction xs)
  case Nil
  show ?case by simp
next
  case (Cons a xs)
  then have "classify_authors [a] [] = Inr (if flagged a then [flag_entry a] else [])"
    and "classify_authors xs [] = Inr (map flag_entry (filter flagged xs))"
    by (simp_all add: classify_one_record del: classify_authors.simps)
  then show ?case
    using classify_authors_append [of "[a]" xs] by (simp del: classify_authors.simps)
qed

lemma identify_list:
  "identify_non_academic_authors (JList xs) = classify_authors xs []"
  by (simp add: identify_non_academic_authors_def)

lemma classify_around:
  assumes "list_all author_record before" and "list_all author_record after"
    and "classify_authors [a] [] = Inr one"
  shows "classify_authors (before @ a # after) [] =
           Inr (map flag_entry (filter flagged before) @ one @ map flag_entry (filter flagged after))"
proof -
  have "classify_authors (a # after) [] = Inr (one @ map flag_entry (filter flagged after))"
    using classify_authors_append [of "[a]" after] assms(2,3)
    by (simp add: classify_records del: classify_authors.simps)
  then show ?thesis
    using classify_authors_append [of before "a # after"] assms(1)
    by (simp add: classify_records del: classify_authors.simps)
qed

subsection \<open>Whitespace holds no keyword\<close>

lemma first_letter_no_space:
  assumes "stands_for p c" and "py_isspace c"
  shows "p \<noteq> 117 \<and> p \<noteq> 99 \<and> p \<noteq> 105 \<and> p \<noteq> 108"
  using assms by (auto simp: stands_for_def py_isspace_def)

lemma whitespace_no_letter:
  assumes "list_all py_isspace s" and "sublist part s" and "list_all2 stands_for (p # ps) part"
  shows "p \<noteq> 117 \<and> p \<noteq> 99 \<and> p \<noteq> 105 \<and> p \<noteq> 108"
proof -
  obtain c cs where part: "part = c # cs" and st: "stands_for p c"
    using assms(3) by (auto simp: list_all2_Cons1)
  have "set part \<subseteq> set s"
    using assms(2) by (rule set_mono_sublist)
  then have "py_isspace c"
    using assms(1) part by (auto simp: list_all_iff)
  with st show ?thesis
    by (rule first_letter_no_space)
qed

lemma whitespace_only_no_keyword:
  assumes "whitespace_only s"
  shows "\<not> keyword_found s"
proof
  assume "keyword_found s"
  then obtain kw part where kw: "kw \<in> set academic_keywords"
    and part: "sublist part s" and st: "list_all2 stands_for kw part"
    by (auto simp: keyword_found_def)
  obtain p ps where "kw = p # ps" and "p = 117 \<or> p = 99 \<or> p = 105 \<or> p = 108"
    using kw by (auto simp: academic_keywords_def str_of_def)
  moreover have "list_all py_isspace s"
    using assms by (simp add: whitespace_only_def)
  ultimately show False
    using whitespace_no_letter [of s part p ps] part st by auto
qed

subsection \<open>The shape of the classification output\<close>

lemma classify_one_shape:
  assumes "classify_authors [a] [] = Inr one"
  shows "\<exists>ps. one = map flag_dict ps \<and> (\<forall>p \<in> set ps. snd p \<noteq> [])"
proof -
  obtain v where v: "py_get a (JStr (str_of ''affiliation'')) (JStr []) = Inr v"
    using assms by (cases "py_get a (JStr (str_of ''affiliation'')) (JStr [])") simp_all
  show ?thesis
  proof (cases "py_truthy v")
    case False
    then have "one = []"
      using assms v by simp
    then show ?thesis by simp
  next
    case True
    then obtain s where s: "v = JStr s" "s \<noteq> []"
      using assms v by (cases v) simp_all
    obtain nm where nm: "py_get a (JStr (str_of ''name'')) JNull = Inr nm"
      using v by (cases a) simp_all
    have "one = [] \<or> one = [flag_dict (nm, s)]"
      using classify_one_str [of a s nm] v s nm assms
      by (auto simp: flag_dict_def simp del: classify_authors.simps split: if_splits)
    then show ?thesis
    proof
      assume "one = []"
      then show ?thesis by simp
    next
      assume "one = [flag_dict (nm, s)]"
      then have "one = map flag_dict [(nm, s)] \<and> (\<forall>p \<in> set [(nm, s)]. snd p \<noteq> [])"
        using s by simp
      then show ?thesis by blast
    qed
  qed
qed

lemma classify_shape:
  "classify_authors xs [] = Inr out \<Longrightarrow>
   \<exists>ps. out = map flag_dict ps \<and> (\<forall>p \<in> set ps. snd p \<noteq> [])"
proof (induction xs arbitrary: out)
  case Nil
  then show ?case by simp
next
  case (Cons a xs)
  have split: "classify_authors (a # xs) [] =
          (case classify_authors [a] [] of
             Inl e \<Rightarrow> Inl e
           | Inr before \<Rightarrow>
               (case classify_authors xs [] of Inl e \<Rightarrow> Inl e | Inr after \<Rightarrow> Inr (before @ after)))"
    using classify_authors_append [of "[a]" xs] by (simp del: classify_authors.simps)
  obtain one rest where one: "classify_authors [a] [] = Inr one"
    and rest: "classify_authors xs [] = Inr rest" and out: "out = one @ rest"
    using Cons.prems unfolding split by (auto split: sum.splits)
  obtain ps where ps: "one = map flag_dict ps" "\<forall>p \<in> set ps. snd p \<noteq> []"
    using classify_one_shape [OF one] by blast
  obtain qs where qs: "rest = map flag_dict qs" "\<forall>p \<in> set qs. snd p \<noteq> []"
    using Cons.IH [OF rest] by blast
  have "out = map flag_dict (ps @ qs) \<and> (\<forall>p \<in> set (ps @ qs). snd p \<noteq> [])"
    using out ps qs by auto
  then show ?case by blast
qed

lemma identify_shape:
  assumes "identify_non_academic_authors authors = Inr na"
  shows "\<exists>ps. na = map flag_dict ps \<and> (\<forall>p \<in> set ps. snd p \<noteq> [])"
  using assms classify_shape
  by (auto simp: identify_non_academic_authors_def split: sum.splits)

subsection \<open>Joining and projecting\<close>

lemma subscript_name: "subscript_each (str_of ''name'') (map flag_dict ps) = Inr (map fst ps)"
  by (induction ps) (simp_all add: flag_dict_def)

lemma subscript_affiliation:
  "subscript_each (str_of ''affiliation'') (map flag_dict ps) = Inr (map JStr (map snd ps))"
  by (induction ps) (simp_all add: flag_dict_def)

lemma as_strs_map_JStr: "as_strs (map JStr ids) = Inr ids"
  by (induction ids) simp_all

lemma as_strs_Inl: "as_strs xs = Inl e \<Longrightarrow> e = TypeError"
  by (induction xs arbitrary: e rule: as_strs.induct) (auto split: sum.splits)

lemma as_strs_Inr_D: "as_strs xs = Inr ss \<Longrightarrow> xs = map JStr ss"
  by (induction xs arbitrary: ss rule: as_strs.induct) (auto split: sum.splits)

lemma as_strs_Inr: "(as_strs xs = Inr ss) = (xs = map JStr ss)"
  using as_strs_Inr_D as_strs_map_JStr by blast

lemma as_strs_affiliations: "as_strs (map (JStr \<circ> snd) ps) = Inr (map snd ps)"
  using as_strs_map_JStr [of "map snd ps"] by simp

lemma join_strs_empty:
  "sep \<noteq> [] \<Longrightarrow> (join_strs sep ss = []) = (ss = [] \<or> ss = [[]])"
  by (induction sep ss rule: join_strs.induct) auto

lemma has_str_name_flag_dicts:
  "list_all has_str_name (map flag_dict ps) = (\<exists>names. map fst ps = map JStr names)"
proof (induction ps)
  case Nil
  show ?case by simp
next
  case (Cons p ps)
  have "has_str_name (flag_dict p) = (\<exists>s. fst p = JStr s)"
    by (cases "fst p") (simp_all add: has_str_name_def flag_dict_def)
  then show ?case
    using Cons.IH by (auto simp: map_eq_Cons_conv Cons_eq_map_conv)
qed

lemma project_row_flagged:
  assumes "identify_non_academic_authors (dict_get kv (str_of ''authors'') (JList [])) = Inr (map flag_dict ps)"
  shows "project_row (JDict kv) =
           (case as_strs (map fst ps) of
              Inl e \<Rightarrow> Inl TypeError
            | Inr names \<Rightarrow>
                Inr (JDict [(str_of ''PubmedID'', dict_get kv (str_of ''uid'') JNull),
                            (str_of ''Title'', dict_get kv (str_of ''title'') (JStr (str_of ''N/A''))),
                            (str_of ''Publication Date'', dict_get kv (str_of ''pubdate'') (JStr (str_of ''N/A''))),
                            (str_of ''Non-academic Authors'', JStr (or_na (join_strs (str_of '', '') names))),
                            (str_of ''Company Affiliations'', JStr (or_na (join_strs (str_of '', '') (map snd ps)))),
                            (str_of ''Corresponding Author Email'',
                               dict_get kv (str_of ''corresponding_author'') (JStr (str_of ''N/A'')))]))"
  using assms as_strs_Inl [of "map fst ps"]
  by (auto simp: project_row_def subscript_name subscript_affiliation str_join_def
      as_strs_affiliations split: sum.splits)

lemma project_row_fields:
  assumes "identify_non_academic_authors (dict_get kv (str_of ''authors'') (JList [])) = Inr (map flag_dict ps)"
    and "map fst ps = map JStr names"
  shows "field_of (project_row (JDict kv)) (str_of ''Non-academic Authors'') =
           Inr (JStr (or_na (join_strs (str_of '', '') names)))"
    and "field_of (project_row (JDict kv)) (str_of ''Company Affiliations'') =
           Inr (JStr (or_na (join_strs (str_of '', '') (map snd ps))))"
  using project_row_flagged [OF assms(1)] assms(2)
  by (simp_all add: field_of_def as_strs_map_JStr)

subsection \<open>The two requests\<close>

lemma fetch_paper_ids_world:
  "snd (fetch_paper_ids e q w) = w\<lparr>requests_made := requests_made w @ [search_request q]\<rparr>"
  by (simp add: fetch_paper_ids_def http_get_def split: sum.splits)

lemma fetch_paper_ids_response:
  assumes "net e (search_request q) = Inr resp"
  shows "fst (fetch_paper_ids e q w) =
           (if 400 \<le> status_code resp \<and> status_code resp < 600 then Inl HTTPError
            else case body resp of
                   None \<Rightarrow> Inl JSONDecodeError
                 | Some data \<Rightarrow>
                     (case py_get data (JStr (str_of ''esearchresult'')) (JDict []) of
                        Inl err \<Rightarrow> Inl err
                      | Inr r \<Rightarrow> py_get r (JStr (str_of ''idlist'')) (JList [])))"
  using assms
  by (simp add: fetch_paper_ids_def http_get_def raise_for_status_def response_json_def
      split: sum.splits option.splits)

lemma collect_papers_result:
  assumes "dict_get obj (str_of ''result'') (JDict []) = JDict result"
  shows "collect_papers (JDict obj) (map JStr ids) papers =
           Inr (papers @ concat (map (record_for result) ids))"
  using assms
  by (induction ids arbitrary: papers)
     (auto simp: record_for_def dict_get_def split: option.splits)

subsection \<open>Rules that evaluate the program on concrete values\<close>

lemmas eval_search = str_of_def char_match_def ignorecase_class_def ignorecase_extra_def

lemmas eval_keyword = keyword_found_search academic_keywords_def eval_search

lemmas eval_identify = identify_non_academic_authors_def dict_get_def eval_search

lemmas eval_contains =
  mentions_academic_keyword_def academic_keywords_def contains_ignoring_case_def
  str_lower_def py_lower_def lower1_def sublist_code str_of_def

section \<open>Author classification\<close>

text \<open>
  C1 as stated fails for an affiliation that holds a keyword only once U+0130 is taken
  for i: in lower case the string is i, U+0307, nstitute of things, which contains no
  keyword (nor does it in upper case or case-folded), yet the search matches and the
  author is left out.
\<close>

theorem dotted_capital_i_counterexample:
  "\<not> mentions_academic_keyword (304 # str_of ''nstitute of Things'')
   \<and> identify_non_academic_authors
       (JList [JDict [(str_of ''name'', JStr (str_of ''Z'')),
                      (str_of ''affiliation'', JStr (304 # str_of ''nstitute of Things''))]])
     = Inr []"
  by (simp add: eval_contains eval_identify)

text \<open>
  C1, amended. An author whose affiliation is a non-empty string is left out of the
  output when a keyword (university, college, institute, lab) is found in the affiliation,
  each letter of the keyword in lower or upper case, where U+0130 and U+0131 also stand
  for i and U+017F for s; the author is put into the output otherwise, with the name as
  given (\<^verbatim>\<open>None\<close> when there is none) and the affiliation unchanged. For an
  affiliation without these three code points, a keyword is found exactly when the
  affiliation contains one ignoring case. The author stands anywhere in a list of author
  records: the output is what the authors before contribute, then nothing or this
  author's entry, then what the authors after contribute.
\<close>

theorem keyword_decides_classification:
  assumes "list_all author_record before" and "list_all author_record after"
    and "map_of kv (str_of ''affiliation'') = Some (JStr aff)" and "aff \<noteq> []"
  shows "(\<exists>out1 out2.
            identify_non_academic_authors (JList before) = Inr out1
          \<and> identify_non_academic_authors (JList after) = Inr out2
          \<and> identify_non_academic_authors (JList (before @ JDict kv # after)) =
              Inr (out1
                   @ (if keyword_found aff then []
                      else [JDict [(str_of ''name'', dict_get kv (str_of ''name'') JNull),
                                   (str_of ''affiliation'', JStr aff)]])
                   @ out2))
       \<and> (304 \<notin> set aff \<and> 305 \<notin> set aff \<and> 383 \<notin> set aff \<longrightarrow>
            keyword_found aff = mentions_academic_keyword aff)"
proof -
  have "classify_authors [JDict kv] [] =
          Inr (if keyword_found aff then []
               else [JDict [(str_of ''name'', dict_get kv (str_of ''name'') JNull),
                            (str_of ''affiliation'', JStr aff)]])"
    using assms(3,4) by (intro classify_one_str) (simp_all add: dict_get_def)
  then have "\<exists>out1 out2.
            identify_non_academic_authors (JList before) = Inr out1
          \<and> identify_non_academic_authors (JList after) = Inr out2
          \<and> identify_non_academic_authors (JList (before @ JDict kv # after)) =
              Inr (out1
                   @ (if keyword_found aff then []
                      else [JDict [(str_of ''name'', dict_get kv (str_of ''name'') JNull),
                                   (str_of ''affiliation'', JStr aff)]])
                   @ out2)"
    using classify_around [OF assms(1,2)] assms(1,2)
    by (simp add: identify_list classify_records del: classify_authors.simps)
  then show ?thesis
    using found_is_contained [of aff] by blast
qed

text \<open>
  Three instances: a company affiliation between an academic author and an author
  without affiliation is reported; an affiliation that holds a keyword in capitals is
  not; and neither is one that holds a keyword written with U+0131 for i.
\<close>

theorem keyword_decides_classification_witness:
  "identify_non_academic_authors
     (JList [JDict [(str_of ''name'', JStr (str_of ''A'')),
                    (str_of ''affiliation'', JStr (str_of ''Dept of X, Harvard University''))],
             JDict [(str_of ''name'', JStr (str_of ''B'')),
                    (str_of ''affiliation'', JStr (str_of ''Acme Biotech Inc.''))],
             JDict [(str_of ''name'', JStr (str_of ''C''))]])
     = Inr [JDict [(str_of ''name'', JStr (str_of ''B'')),
                   (str_of ''affiliation'', JStr (str_of ''Acme Biotech Inc.''))]]
   \<and> identify_non_academic_authors
       (JList [JDict [(str_of ''name'', JStr (str_of ''E'')),
                      (str_of ''affiliation'', JStr (str_of ''Bell LABS''))]])
     = Inr []
   \<and> identify_non_academic_authors
       (JList [JDict [(str_of ''name'', JStr (str_of ''G'')),
                      (str_of ''affiliation'',
                         JStr (str_of ''Un'' @ [305] @ str_of ''vers'' @ [305] @ str_of ''ty Press''))]])
     = Inr []
   \<and> keyword_found (str_of ''Bell LABS'') = mentions_academic_keyword (str_of ''Bell LABS'')"
proof -
  let ?A = "JDict [(str_of ''name'', JStr (str_of ''A'')),
                   (str_of ''affiliation'', JStr (str_of ''Dept of X, Harvard University''))]"
  let ?kv = "[(str_of ''name'', JStr (str_of ''B'')),
              (str_of ''affiliation'', JStr (str_of ''Acme Biotech Inc.''))]"
  let ?C = "JDict [(str_of ''name'', JStr (str_of ''C''))]"
  let ?ev = "[(str_of ''name'', JStr (str_of ''E'')),
              (str_of ''affiliation'', JStr (str_of ''Bell LABS''))]"
  let ?u = "str_of ''Un'' @ [305] @ str_of ''vers'' @ [305] @ str_of ''ty Press''"
  let ?gv = "[(str_of ''name'', JStr (str_of ''G'')), (str_of ''affiliation'', JStr ?u)]"
  have b: "list_all author_record [?A]" by simp
  have a: "list_all author_record [?C]" by simp
  have k: "map_of ?kv (str_of ''affiliation'') = Some (JStr (str_of ''Acme Biotech Inc.''))"
    by simp
  have n: "str_of ''Acme Biotech Inc.'' \<noteq> []" by simp
  have m: "\<not> keyword_found (str_of ''Acme Biotech Inc.'')" by (simp add: eval_keyword)
  have o1: "identify_non_academic_authors (JList [?A]) = Inr []" by (simp add: eval_identify)
  have o2: "identify_non_academic_authors (JList [?C]) = Inr []" by (simp add: eval_identify)
  have first: "identify_non_academic_authors (JList [?A, JDict ?kv, ?C]) = Inr [JDict ?kv]"
    using keyword_decides_classification [OF b a k n] m o1 o2
    by (simp add: dict_get_def del: classify_authors.simps)
  have e: "list_all author_record []" by simp
  have o3: "identify_non_academic_authors (JList []) = Inr []" by (simp add: eval_identify)
  have k': "map_of ?ev (str_of ''affiliation'') = Some (JStr (str_of ''Bell LABS''))" by simp
  have n': "str_of ''Bell LABS'' \<noteq> []" by simp
  have m': "keyword_found (str_of ''Bell LABS'')" by (simp add: eval_keyword)
  have s': "304 \<notin> set (str_of ''Bell LABS'') \<and> 305 \<notin> set (str_of ''Bell LABS'')
            \<and> 383 \<notin> set (str_of ''Bell LABS'')"
    by (simp add: eval_keyword)
  have second: "identify_non_academic_authors (JList [JDict ?ev]) = Inr []
                \<and> keyword_found (str_of ''Bell LABS'') = mentions_academic_keyword (str_of ''Bell LABS'')"
    using keyword_decides_classification [OF e e k' n'] m' o3 s'
    by simp
  have k'': "map_of ?gv (str_of ''affiliation'') = Some (JStr ?u)" by simp
  have n'': "?u \<noteq> []" by simp
  have m'': "keyword_found ?u" by (simp add: eval_keyword)
  have third: "identify_non_academic_authors (JList [JDict ?gv]) = Inr []"
    using keyword_decides_classification [OF e e k'' n''] m'' o3
    by simp
  show ?thesis
    using first second third by simp
qed

text \<open>
  C2 as stated fails for an affiliation of whitespace only: the string is not empty and
  holds no keyword, so the author is reported.
\<close>

theorem whitespace_affiliation_counterexample:
  "whitespace_only (str_of '' '')
   \<and> identify_non_academic_authors (JList [JDict [(str_of ''name'', JStr (str_of ''X'')),
                                                       (str_of ''affiliation'',
                                                           JStr (str_of '' ''))]])
       = Inr [JDict [(str_of ''name'', JStr (str_of ''X'')),
                     (str_of ''affiliation'', JStr (str_of '' ''))]]
   \<and> identify_non_academic_authors (JList [JDict [(str_of ''name'', JStr (str_of ''X'')),
                                                       (str_of ''affiliation'',
                                                           JStr (str_of '' ''))]])
       \<noteq> Inr []"
  by (simp add: whitespace_only_def py_isspace_def eval_identify)

text \<open>
  C2, amended. An author whose affiliation is absent, \<^verbatim>\<open>None\<close> or the empty string
  contributes nothing to the output, whatever the name. An author whose affiliation is a
  non-empty string of whitespace only is not left out: the entry is reported with the
  name as given and the affiliation unchanged.
\<close>

theorem missing_affiliation_excluded:
  assumes "list_all author_record before" and "list_all author_record after"
  shows "\<exists>out1 out2.
           identify_non_academic_authors (JList before) = Inr out1
         \<and> identify_non_academic_authors (JList after) = Inr out2
         \<and> (affiliation_absent_or_empty kv \<longrightarrow>
              identify_non_academic_authors (JList (before @ JDict kv # after)) = Inr (out1 @ out2))
         \<and> (\<forall>aff. map_of kv (str_of ''affiliation'') = Some (JStr aff) \<and> whitespace_only aff \<longrightarrow>
              identify_non_academic_authors (JList (before @ JDict kv # after)) =
                Inr (out1
                     @ [JDict [(str_of ''name'', dict_get kv (str_of ''name'') JNull),
                               (str_of ''affiliation'', JStr aff)]]
                     @ out2))"
proof -
  have e: "classify_authors [JDict kv] [] = Inr []" if "affiliation_absent_or_empty kv"
  proof -
    have "py_get (JDict kv) (JStr (str_of ''affiliation'')) (JStr []) = Inr (dict_get kv (str_of ''affiliation'') (JStr []))"
      by simp
    moreover have "\<not> py_truthy (dict_get kv (str_of ''affiliation'') (JStr []))"
      using that by (auto simp: affiliation_absent_or_empty_def dict_get_def split: option.splits)
    ultimately show ?thesis by (rule classify_one_falsy)
  qed
  have i: "classify_authors [JDict kv] [] =
             Inr [JDict [(str_of ''name'', dict_get kv (str_of ''name'') JNull),
                         (str_of ''affiliation'', JStr aff)]]"
    if "map_of kv (str_of ''affiliation'') = Some (JStr aff)" and "whitespace_only aff" for aff
  proof -
    have "aff \<noteq> []" and "\<not> keyword_found aff"
      using that(2) by (simp_all add: whitespace_only_no_keyword) (simp add: whitespace_only_def)
    then show ?thesis
      using classify_one_str [of "JDict kv" aff "dict_get kv (str_of ''name'') JNull"] that(1)
      by (simp add: dict_get_def del: classify_authors.simps)
  qed
  show ?thesis
    using classify_around [OF assms, of "JDict kv"] e i assms
    by (auto simp: identify_list classify_records simp del: classify_authors.simps)
qed

theorem missing_affiliation_excluded_witness:
  "identify_non_academic_authors
     (JList [JDict [(str_of ''name'', JStr (str_of ''B'')),
                    (str_of ''affiliation'', JStr (str_of ''Acme Biotech Inc.''))],
             JDict [(str_of ''name'', JStr (str_of ''C''))],
             JDict [(str_of ''name'', JStr (str_of ''D'')),
                    (str_of ''affiliation'', JStr (str_of ''Initech''))]])
     = Inr [JDict [(str_of ''name'', JStr (str_of ''B'')),
                   (str_of ''affiliation'', JStr (str_of ''Acme Biotech Inc.''))],
            JDict [(str_of ''name'', JStr (str_of ''D'')),
                   (str_of ''affiliation'', JStr (str_of ''Initech''))]]
   \<and> identify_non_academic_authors
       (JList [JDict [(str_of ''name'', JStr (str_of ''B'')),
                      (str_of ''affiliation'', JStr (str_of ''Acme Biotech Inc.''))],
               JDict [(str_of ''name'', JStr (str_of ''F'')),
                      (str_of ''affiliation'', JStr [9, 32])],
               JDict [(str_of ''name'', JStr (str_of ''D'')),
                      (str_of ''affiliation'', JStr (str_of ''Initech''))]])
     = Inr [JDict [(str_of ''name'', JStr (str_of ''B'')),
                   (str_of ''affiliation'', JStr (str_of ''Acme Biotech Inc.''))],
            JDict [(str_of ''name'', JStr (str_of ''F'')), (str_of ''affiliation'', JStr [9, 32])],
            JDict [(str_of ''name'', JStr (str_of ''D'')),
                   (str_of ''affiliation'', JStr (str_of ''Initech''))]]"
proof -
  let ?B = "JDict [(str_of ''name'', JStr (str_of ''B'')),
                   (str_of ''affiliation'', JStr (str_of ''Acme Biotech Inc.''))]"
  let ?kv = "[(str_of ''name'', JStr (str_of ''C''))]"
  let ?fv = "[(str_of ''name'', JStr (str_of ''F'')), (str_of ''affiliation'', JStr [9, 32])]"
  let ?D = "JDict [(str_of ''name'', JStr (str_of ''D'')),
                   (str_of ''affiliation'', JStr (str_of ''Initech''))]"
  have b: "list_all author_record [?B]" by simp
  have a: "list_all author_record [?D]" by simp
  have k: "affiliation_absent_or_empty ?kv" by (simp add: affiliation_absent_or_empty_def)
  have f: "map_of ?fv (str_of ''affiliation'') = Some (JStr [9, 32])" by simp
  have s: "whitespace_only [9, 32]" by (simp add: whitespace_only_def py_isspace_def)
  have o1: "identify_non_academic_authors (JList [?B]) = Inr [?B]" by (simp add: eval_identify)
  have o2: "identify_non_academic_authors (JList [?D]) = Inr [?D]" by (simp add: eval_identify)
  have first: "identify_non_academic_authors (JList [?B, JDict ?kv, ?D]) = Inr [?B, ?D]"
    using missing_affiliation_excluded [OF b a, of ?kv] k o1 o2
    by (auto simp del: classify_authors.simps)
  have second: "identify_non_academic_authors (JList [?B, JDict ?fv, ?D]) = Inr [?B, JDict ?fv, ?D]"
    using missing_affiliation_excluded [OF b a, of ?fv] f s o1 o2
    by (auto simp: dict_get_def simp del: classify_authors.simps)
  show ?thesis
    using first second by simp
qed

section \<open>Detail retrieval\<close>

text \<open>
  C3 as stated fails for an id that has no entry in the result map: the lookup falls
  back to the empty dictionary, which passes the dictionary test, so an empty record
  stands in the result where the specification has none.
\<close>

theorem details_missing_entry_counterexample:
  "fst (fetch_paper_details
          (respond 200 (JDict [(str_of ''result'', JDict [(str_of ''2'', JDict [(str_of ''uid'',
              JStr (str_of ''2''))])])]))
          (JList [JStr (str_of ''1''), JStr (str_of ''2'')]) world0)
     = Inr [JDict [], JDict [(str_of ''uid'', JStr (str_of ''2''))]]
   \<and> concat (map (claimed_record_for [(str_of ''2'', JDict [(str_of ''uid'',
       JStr (str_of ''2''))])]) [str_of ''1'', str_of ''2''])
     = [JDict [(str_of ''uid'', JStr (str_of ''2''))]]"
  by (simp add: fetch_paper_details_def str_join_def http_get_def respond_def
      raise_for_status_def response_json_def dict_get_def claimed_record_for_def)

text \<open>
  C3, amended. For a non-empty list of paper ids and a response without error status
  whose body is an object with a result map (or no result key), detail retrieval makes
  the one request for the joined ids and returns, in the order of the ids, the entry of
  each id whose entry is a dictionary and the empty dictionary for each id without
  entry; an id whose entry is not a dictionary is left out, and no error is raised.
\<close>

theorem details_one_record_per_entry:
  assumes "ids \<noteq> []"
    and "net e (details_request (join_strs (str_of '','') ids)) = Inr resp"
    and "\<not> (400 \<le> status_code resp \<and> status_code resp < 600)"
    and "body resp = Some (JDict obj)"
    and "dict_get obj (str_of ''result'') (JDict []) = JDict result"
  shows "fetch_paper_details e (JList (map JStr ids)) w =
           (Inr (concat (map (record_for result) ids)),
            w\<lparr>requests_made := requests_made w @ [details_request (join_strs (str_of '','') ids)]\<rparr>)"
  using assms
  by (simp add: fetch_paper_details_def str_join_def as_strs_map_JStr http_get_def
      raise_for_status_def response_json_def collect_papers_result)

theorem details_one_record_per_entry_witness:
  "fetch_paper_details
     (respond 200 (JDict [(str_of ''result'', JDict [(str_of ''1'', JDict [(str_of ''uid'',
         JStr (str_of ''1''))]), (str_of ''2'', JStr (str_of ''bad''))])]))
     (JList [JStr (str_of ''1''), JStr (str_of ''2''), JStr (str_of ''3'')]) world0
   = (Inr [JDict [(str_of ''uid'', JStr (str_of ''1''))], JDict []],
      \<lparr>requests_made = [details_request (str_of ''1,2,3'')], stdout = [],
          files = []\<rparr>)"
proof -
  let ?r = "[(str_of ''1'', JDict [(str_of ''uid'', JStr (str_of ''1''))]), (str_of ''2'',
      JStr (str_of ''bad''))]"
  let ?e = "respond 200 (JDict [(str_of ''result'', JDict ?r)])"
  have i: "[str_of ''1'', str_of ''2'', str_of ''3''] \<noteq> []" by simp
  have n: "net ?e (details_request (join_strs (str_of '','') [str_of ''1'', str_of ''2'',
      str_of ''3'']))
             = Inr \<lparr>status_code = 200, body = Some (JDict [(str_of ''result'',
                 JDict ?r)])\<rparr>"
    by (simp add: respond_def)
  have s: "\<not> (400 \<le> status_code \<lparr>status_code = 200,
      body = Some (JDict [(str_of ''result'', JDict ?r)])\<rparr>
              \<and> status_code \<lparr>status_code = 200, body = Some (JDict [(str_of ''result'',
                  JDict ?r)])\<rparr> < 600)"
    by simp
  have b: "body \<lparr>status_code = 200, body = Some (JDict [(str_of ''result'',
      JDict ?r)])\<rparr>
             = Some (JDict [(str_of ''result'', JDict ?r)])"
    by simp
  have r: "dict_get [(str_of ''result'', JDict ?r)] (str_of ''result'') (JDict []) = JDict ?r"
    by (simp add: dict_get_def)
  show ?thesis
    using details_one_record_per_entry [OF i n s b r, of world0]
    by (simp add: record_for_def world0_def str_of_append [symmetric])
qed

section \<open>Row projection\<close>

text \<open>
  C4 as stated fails for a non-empty list whose names join to the empty string: one
  reported author with the empty name gives the field N/A, not the joined names.
\<close>

theorem joined_fields_counterexample:
  "identify_non_academic_authors
     (JList [JDict [(str_of ''name'', JStr []),
                    (str_of ''affiliation'', JStr (str_of ''Acme Biotech Inc.''))]])
     = Inr [JDict [(str_of ''name'', JStr []),
                   (str_of ''affiliation'', JStr (str_of ''Acme Biotech Inc.''))]]
   \<and> project_row (JDict [(str_of ''uid'', JStr (str_of ''1'')), (str_of ''title'',
       JStr (str_of ''T'')), (str_of ''pubdate'', JStr (str_of ''2024'')),
                         (str_of ''authors'', JList [JDict [(str_of ''name'', JStr []),
                                                     (str_of ''affiliation'',
                                                         JStr (str_of ''Acme Biotech Inc.''))]])])
     = Inr (JDict [(str_of ''PubmedID'', JStr (str_of ''1'')), (str_of ''Title'',
         JStr (str_of ''T'')),
                   (str_of ''Publication Date'', JStr (str_of ''2024'')),
                   (str_of ''Non-academic Authors'', JStr (str_of ''N/A'')),
                   (str_of ''Company Affiliations'', JStr (str_of ''Acme Biotech Inc.'')),
                   (str_of ''Corresponding Author Email'', JStr (str_of ''N/A''))])
   \<and> join_strs (str_of '', '') [[]] \<noteq> str_of ''N/A''"
  by (simp add: project_row_def str_join_def or_na_def eval_identify)

text \<open>
  C4, amended. For a paper whose list of non-academic authors is empty, the fields
  Non-academic Authors and Company Affiliations of the row are both the string N/A.
  For a non-empty list whose names are all strings, Company Affiliations is the
  affiliations joined with a comma and a space, and Non-academic Authors is the names
  joined the same way, except that it is N/A when the list is one author with the empty
  name.
\<close>

theorem joined_fields:
  assumes "identify_non_academic_authors (dict_get kv (str_of ''authors'') (JList [])) = Inr na"
  shows "(na = [] \<longrightarrow>
            field_of (project_row (JDict kv)) (str_of ''Non-academic Authors'') = Inr (JStr (str_of ''N/A''))
          \<and> field_of (project_row (JDict kv)) (str_of ''Company Affiliations'') = Inr (JStr (str_of ''N/A'')))
       \<and> (\<forall>names. na \<noteq> [] \<and> subscript_each (str_of ''name'') na = Inr (map JStr names) \<longrightarrow>
            (\<exists>affs. subscript_each (str_of ''affiliation'') na = Inr (map JStr affs)
               \<and> field_of (project_row (JDict kv)) (str_of ''Company Affiliations'') =
                   Inr (JStr (join_strs (str_of '', '') affs))
               \<and> field_of (project_row (JDict kv)) (str_of ''Non-academic Authors'') =
                   Inr (JStr (if names = [[]] then (str_of ''N/A'') else join_strs (str_of '', '') names))))"
proof -
  obtain ps where ps: "na = map flag_dict ps" and ne: "\<forall>p \<in> set ps. snd p \<noteq> []"
    using identify_shape [OF assms] by blast
  have i: "identify_non_academic_authors (dict_get kv (str_of ''authors'') (JList [])) = Inr (map flag_dict ps)"
    using assms ps by simp
  have empty: ?thesis if "ps = []"
    using project_row_fields [OF i, of "[]"] that ps by (simp add: or_na_def)
  have nonempty: ?thesis if "ps \<noteq> []"
  proof -
    have "join_strs (str_of '', '') (map snd ps) \<noteq> []"
      using that ne by (cases ps) (auto simp: join_strs_empty)
    then have a: "or_na (join_strs (str_of '', '') (map snd ps)) = join_strs (str_of '', '') (map snd ps)"
      by (simp add: or_na_def)
    have "\<exists>affs. subscript_each (str_of ''affiliation'') na = Inr (map JStr affs)
               \<and> field_of (project_row (JDict kv)) (str_of ''Company Affiliations'') =
                   Inr (JStr (join_strs (str_of '', '') affs))
               \<and> field_of (project_row (JDict kv)) (str_of ''Non-academic Authors'') =
                   Inr (JStr (if names = [[]] then (str_of ''N/A'') else join_strs (str_of '', '') names))"
      if "subscript_each (str_of ''name'') na = Inr (map JStr names)" for names
    proof -
      have f: "map fst ps = map JStr names"
        using that unfolding ps by (simp add: subscript_name)
      have "names \<noteq> []"
        using f \<open>ps \<noteq> []\<close> by auto
      then have n: "or_na (join_strs (str_of '', '') names) =
                      (if names = [[]] then (str_of ''N/A'') else join_strs (str_of '', '') names)"
        by (simp add: or_na_def join_strs_empty)
      have "subscript_each (str_of ''affiliation'') na = Inr (map JStr (map snd ps))"
        unfolding ps by (simp add: subscript_affiliation)
      then show ?thesis
        using project_row_fields [OF i f] n a by (intro exI [of _ "map snd ps"]) simp
    qed
    then show ?thesis
      using that ps by simp
  qed
  show ?thesis
    using empty nonempty by blast
qed

theorem joined_fields_witness:
  "field_of (project_row (JDict [(str_of ''uid'', JStr (str_of ''1'')),
       (str_of ''authors'', JList [JDict [(str_of ''name'', JStr (str_of ''A'')),
                                   (str_of ''affiliation'',
                                       JStr (str_of ''Dept of X, Harvard University''))]])]))
     (str_of ''Non-academic Authors'') = Inr (JStr (str_of ''N/A''))
   \<and> field_of (project_row (JDict [(str_of ''uid'', JStr (str_of ''1'')),
       (str_of ''authors'', JList [JDict [(str_of ''name'', JStr (str_of ''A'')),
                                   (str_of ''affiliation'',
                                       JStr (str_of ''Dept of X, Harvard University''))]])]))
     (str_of ''Company Affiliations'') = Inr (JStr (str_of ''N/A''))
   \<and> field_of (project_row (JDict [(str_of ''uid'', JStr (str_of ''2'')),
       (str_of ''authors'', JList [JDict [(str_of ''name'', JStr (str_of ''B'')),
                                          (str_of ''affiliation'',
                                              JStr (str_of ''Acme Biotech Inc.''))],
                            JDict [(str_of ''name'', JStr (str_of ''D'')),
                                   (str_of ''affiliation'', JStr (str_of ''Initech''))]])]))
     (str_of ''Non-academic Authors'') = Inr (JStr (str_of ''B, D''))
   \<and> field_of (project_row (JDict [(str_of ''uid'', JStr (str_of ''2'')),
       (str_of ''authors'', JList [JDict [(str_of ''name'', JStr (str_of ''B'')),
                                          (str_of ''affiliation'',
                                              JStr (str_of ''Acme Biotech Inc.''))],
                            JDict [(str_of ''name'', JStr (str_of ''D'')),
                                   (str_of ''affiliation'', JStr (str_of ''Initech''))]])]))
     (str_of ''Company Affiliations'') = Inr (JStr (str_of ''Acme Biotech Inc., Initech''))"
proof -
  let ?kv1 = "[(str_of ''uid'', JStr (str_of ''1'')),
       (str_of ''authors'', JList [JDict [(str_of ''name'', JStr (str_of ''A'')),
                                   (str_of ''affiliation'',
                                       JStr (str_of ''Dept of X, Harvard University''))]])]"
  let ?B = "JDict [(str_of ''name'', JStr (str_of ''B'')),
                   (str_of ''affiliation'', JStr (str_of ''Acme Biotech Inc.''))]"
  let ?D = "JDict [(str_of ''name'', JStr (str_of ''D'')),
                   (str_of ''affiliation'', JStr (str_of ''Initech''))]"
  let ?kv2 = "[(str_of ''uid'', JStr (str_of ''2'')), (str_of ''authors'', JList [?B, ?D])]"
  have i1: "identify_non_academic_authors (dict_get ?kv1 (str_of ''authors'') (JList [])) = Inr []"
    by (simp add: eval_identify)
  have i2: "identify_non_academic_authors (dict_get ?kv2 (str_of ''authors'') (JList [])) = Inr [?B, ?D]"
    by (simp add: eval_identify)
  have n2: "subscript_each (str_of ''name'') [?B, ?D] = Inr (map JStr [str_of ''B'', str_of ''D''])"
    by simp
  have first: "field_of (project_row (JDict ?kv1)) (str_of ''Non-academic Authors'') = Inr (JStr (str_of ''N/A''))
             \<and> field_of (project_row (JDict ?kv1)) (str_of ''Company Affiliations'') = Inr (JStr (str_of ''N/A''))"
    using joined_fields [OF i1] by simp
  obtain affs where "subscript_each (str_of ''affiliation'') [?B, ?D] = Inr (map JStr affs)"
    and c: "field_of (project_row (JDict ?kv2)) (str_of ''Company Affiliations'') =
              Inr (JStr (join_strs (str_of '', '') affs))"
    and n: "field_of (project_row (JDict ?kv2)) (str_of ''Non-academic Authors'') =
              Inr (JStr (if [str_of ''B'',
                  str_of ''D''] = [[]] then (str_of ''N/A'') else join_strs (str_of '', '') [str_of ''B'', str_of ''D'']))"
    using joined_fields [OF i2] n2 by blast
  then have "affs = [str_of ''Acme Biotech Inc.'', str_of ''Initech'']"
    by (auto simp: Cons_eq_map_conv)
  then show ?thesis
    using first c n by (simp add: str_of_append [symmetric])
qed

section \<open>Order of the classification output\<close>

text \<open>
  C5. For every list of author records the classification returns, and its output is
  the entries of the flagged authors in the order in which those authors stand in the
  input; it is a subsequence of the entries of all the authors.
\<close>

theorem classification_stable:
  assumes "list_all author_record authors"
  shows "identify_non_academic_authors (JList authors) = Inr (map flag_entry (filter flagged authors))
       \<and> subseq (map flag_entry (filter flagged authors)) (map flag_entry authors)"
  using assms by (simp add: identify_non_academic_authors_def classify_records subseq_map)

theorem classification_stable_witness:
  "identify_non_academic_authors
     (JList [JDict [(str_of ''name'', JStr (str_of ''D'')),
                    (str_of ''affiliation'', JStr (str_of ''Initech''))],
             JDict [(str_of ''name'', JStr (str_of ''A'')),
                    (str_of ''affiliation'', JStr (str_of ''Dept of X, Harvard University''))],
             JDict [(str_of ''name'', JStr (str_of ''B'')),
                    (str_of ''affiliation'', JStr (str_of ''Acme Biotech Inc.''))]])
   = Inr [JDict [(str_of ''name'', JStr (str_of ''D'')),
                 (str_of ''affiliation'', JStr (str_of ''Initech''))],
          JDict [(str_of ''name'', JStr (str_of ''B'')),
                 (str_of ''affiliation'', JStr (str_of ''Acme Biotech Inc.''))]]"
proof -
  let ?B = "JDict [(str_of ''name'', JStr (str_of ''B'')),
                   (str_of ''affiliation'', JStr (str_of ''Acme Biotech Inc.''))]"
  let ?A = "JDict [(str_of ''name'', JStr (str_of ''A'')),
                   (str_of ''affiliation'', JStr (str_of ''Dept of X, Harvard University''))]"
  let ?D = "JDict [(str_of ''name'', JStr (str_of ''D'')),
                   (str_of ''affiliation'', JStr (str_of ''Initech''))]"
  have r: "list_all author_record [?D, ?A, ?B]" by simp
  have f: "map flag_entry (filter flagged [?D, ?A, ?B]) = [?D,
      ?B]" by (simp add: flagged_def flag_entry_def dict_get_def eval_keyword)
  show ?thesis
    using classification_stable [OF r] f by simp
qed

section \<open>Detail retrieval on no ids\<close>

text \<open>
  C6. Detail retrieval applied to an empty list of paper ids returns an empty list and
  performs no network call: the world, and with it the log of requests, is unchanged.
\<close>

theorem fetch_paper_details_empty:
  "fetch_paper_details e (JList []) w = (Inr [], w)
   \<and> requests_made (snd (fetch_paper_details e (JList []) w)) = requests_made w"
  by (simp add: fetch_paper_details_def)

section \<open>Search\<close>

text \<open>
  C7 as stated fails for a body in which the path is cut by a value that is not an
  object: with esearchresult bound to \<^verbatim>\<open>None\<close> the second lookup raises
  AttributeError.
\<close>

theorem search_missing_path_counterexample:
  "lacks_idlist_path (JDict [(str_of ''esearchresult'', JNull)])
   \<and> fst (fetch_paper_ids (respond 200 (JDict [(str_of ''esearchresult'',
       JNull)])) (str_of ''cancer'') world0)
       = Inl AttributeError"
  by (simp add: fetch_paper_ids_response [of _ _ "\<lparr>status_code = 200,
      body = Some (JDict [(str_of ''esearchresult'', JNull)])\<rparr>"]
      respond_def dict_get_def)

text \<open>
  C7, amended. The search fails with HTTPError whenever the endpoint answers with an
  error status (400 to 599). When it answers with another status and a JSON object in
  which the key esearchresult is missing, or is bound to an object in which the key
  idlist is missing, the search returns the empty id list and raises nothing.
\<close>

theorem search_status_and_missing_keys:
  assumes "net e (search_request q) = Inr resp"
  shows "(400 \<le> status_code resp \<and> status_code resp < 600 \<longrightarrow>
            fst (fetch_paper_ids e q w) = Inl HTTPError)
       \<and> (\<forall>data. \<not> (400 \<le> status_code resp \<and> status_code resp < 600)
              \<and> body resp = Some data \<and> idlist_key_absent data \<longrightarrow>
            fst (fetch_paper_ids e q w) = Inr (JList []))"
proof -
  have "(case py_get data (JStr (str_of ''esearchresult'')) (JDict []) of
           Inl err \<Rightarrow> Inl err
         | Inr r \<Rightarrow> py_get r (JStr (str_of ''idlist'')) (JList [])) = Inr (JList [])"
    if "idlist_key_absent data" for data
    using that
    by (cases data) (auto simp: dict_get_def split: option.splits json.splits)
  then show ?thesis
    using fetch_paper_ids_response [OF assms, of w] by auto
qed

theorem search_status_and_missing_keys_witness:
  "fst (fetch_paper_ids (respond 503 (JDict [])) (str_of ''cancer'') world0) = Inl HTTPError
   \<and> fst (fetch_paper_ids (respond 200 (JDict [(str_of ''esearchresult'',
       JDict [(str_of ''count'', JStr (str_of ''0''))])]))
           (str_of ''cancer'') world0) = Inr (JList [])"
proof -
  have a: "net (respond 503 (JDict [])) (search_request (str_of ''cancer''))
             = Inr \<lparr>status_code = 503, body = Some (JDict [])\<rparr>"
    by (simp add: respond_def)
  have b: "net (respond 200 (JDict [(str_of ''esearchresult'', JDict [(str_of ''count'',
      JStr (str_of ''0''))])]))
               (search_request (str_of ''cancer''))
             = Inr \<lparr>status_code = 200,
                    body = Some (JDict [(str_of ''esearchresult'', JDict [(str_of ''count'',
                        JStr (str_of ''0''))])])\<rparr>"
    by (simp add: respond_def)
  show ?thesis
    using search_status_and_missing_keys [OF a, of world0]
      search_status_and_missing_keys [OF b, of world0]
    by simp
qed

section \<open>No papers found\<close>

text \<open>
  C8. Whenever the search returns the empty id list, the program ends normally having
  made the search request and no other, printed the one line No papers found. and
  nothing else, and written no file, whether or not an output file was asked for.
\<close>

theorem no_papers_found:
  assumes "fst (fetch_paper_ids e (query a) w) = Inr (JList [])"
  shows "main e a w =
           (None, w\<lparr>requests_made := requests_made w @ [search_request (query a)],
                    stdout := stdout w @ [PStr (str_of ''No papers found.'')]\<rparr>)
       \<and> files (snd (main e a w)) = files w"
proof -
  have "fetch_paper_ids e (query a) w =
          (Inr (JList []),
              w\<lparr>requests_made := requests_made w @ [search_request (query a)]\<rparr>)"
    using assms fetch_paper_ids_world [of e "query a" w]
    by (cases "fetch_paper_ids e (query a) w") simp
  then show ?thesis
    by (simp add: main_def print_def)
qed

theorem no_papers_found_witness:
  "main (respond 200 (JDict [(str_of ''esearchresult'', JDict [(str_of ''idlist'', JList [])])]))
        \<lparr>query = (str_of ''zzzz''), file_arg = Some (str_of ''out.csv'')\<rparr> world0
   = (None, \<lparr>requests_made = [search_request (str_of ''zzzz'')],
             stdout = [PStr (str_of ''No papers found.'')], files = []\<rparr>)"
proof -
  let ?e = "respond 200 (JDict [(str_of ''esearchresult'', JDict [(str_of ''idlist'', JList [])])])"
  have "net ?e (search_request (str_of ''zzzz''))
          = Inr \<lparr>status_code = 200,
                 body = Some (JDict [(str_of ''esearchresult'', JDict [(str_of ''idlist'',
                     JList [])])])\<rparr>"
    by (simp add: respond_def)
  then have h: "fst (fetch_paper_ids ?e (query \<lparr>query = (str_of ''zzzz''),
      file_arg = Some (str_of ''out.csv'')\<rparr>) world0)
          = Inr (JList [])"
    by (simp add: fetch_paper_ids_response dict_get_def)
  show ?thesis
    using no_papers_found [OF h] by (simp add: world0_def)
qed

section \<open>Names that are not strings, and empty names\<close>

text \<open>
  C9. The projection of a paper produces a row only when every reported author carries
  a string as name; otherwise joining the names raises TypeError and no row is
  produced. A reported author without name key carries \<^verbatim>\<open>None\<close>, so such inputs
  exist.
\<close>

theorem projection_needs_string_names:
  assumes "identify_non_academic_authors (dict_get kv (str_of ''authors'') (JList [])) = Inr na"
  shows "(\<exists>row. project_row (JDict kv) = Inr row) = list_all has_str_name na
       \<and> (\<not> list_all has_str_name na \<longrightarrow> project_row (JDict kv) = Inl TypeError)"
proof -
  obtain ps where ps: "na = map flag_dict ps"
    using identify_shape [OF assms] by blast
  have p: "project_row (JDict kv) =
             (case as_strs (map fst ps) of
                Inl e \<Rightarrow> Inl TypeError
              | Inr names \<Rightarrow>
                  Inr (JDict [(str_of ''PubmedID'', dict_get kv (str_of ''uid'') JNull),
                              (str_of ''Title'',
                                  dict_get kv (str_of ''title'') (JStr (str_of ''N/A''))),
                              (str_of ''Publication Date'',
                                  dict_get kv (str_of ''pubdate'') (JStr (str_of ''N/A''))),
                              (str_of ''Non-academic Authors'',
                                  JStr (or_na (join_strs (str_of '', '') names))),
                              (str_of ''Company Affiliations'',
                                  JStr (or_na (join_strs (str_of '', '') (map snd ps)))),
                              (str_of ''Corresponding Author Email'',
                                 dict_get kv (str_of ''corresponding_author'') (JStr (str_of ''N/A'')))]))"
    using assms unfolding ps by (rule project_row_flagged)
  have n: "list_all has_str_name na = (\<exists>names. as_strs (map fst ps) = Inr names)"
    unfolding ps by (simp add: has_str_name_flag_dicts as_strs_Inr)
  show ?thesis
    unfolding n p by (cases "as_strs (map fst ps)") simp_all
qed

theorem projection_needs_string_names_witness:
  "project_row (JDict [(str_of ''uid'', JStr (str_of ''7'')), (str_of ''title'',
      JStr (str_of ''T'')),
                       (str_of ''authors'', JList [JDict [(str_of ''affiliation'',
                           JStr (str_of ''Acme Biotech Inc.''))]])])
   = Inl TypeError"
proof -
  let ?kv = "[(str_of ''uid'', JStr (str_of ''7'')), (str_of ''title'', JStr (str_of ''T'')),
              (str_of ''authors'', JList [JDict [(str_of ''affiliation'',
                  JStr (str_of ''Acme Biotech Inc.''))]])]"
  have i: "identify_non_academic_authors (dict_get ?kv (str_of ''authors'') (JList []))
             = Inr [JDict [(str_of ''name'', JNull),
                           (str_of ''affiliation'', JStr (str_of ''Acme Biotech Inc.''))]]"
    by (simp add: eval_identify)
  have h: "\<not> list_all has_str_name [JDict [(str_of ''name'', JNull),
                                                (str_of ''affiliation'',
                                                    JStr (str_of ''Acme Biotech Inc.''))]]"
    by (simp add: has_str_name_def)
  show ?thesis
    using projection_needs_string_names [OF i] h by blast
qed

text \<open>
  C10. With string names, the field Non-academic Authors is N/A exactly when the joined
  names are the empty string, and the joined names otherwise. So a paper whose list of
  non-academic authors is one author with the empty name has the field N/A although the
  list is not empty.
\<close>

theorem na_decided_by_joined_string:
  assumes "identify_non_academic_authors (dict_get kv (str_of ''authors'') (JList [])) = Inr na"
    and "subscript_each (str_of ''name'') na = Inr (map JStr names)"
  shows "field_of (project_row (JDict kv)) (str_of ''Non-academic Authors'') =
           Inr (JStr (if join_strs (str_of '', '') names = [] then (str_of ''N/A'') else join_strs (str_of '', '') names))
       \<and> (names = [[]] \<longrightarrow>
            na \<noteq> []
          \<and> field_of (project_row (JDict kv)) (str_of ''Non-academic Authors'') = Inr (JStr (str_of ''N/A'')))"
proof -
  obtain ps where ps: "na = map flag_dict ps"
    using identify_shape [OF assms(1)] by blast
  have f: "map fst ps = map JStr names"
    using assms(2) unfolding ps by (simp add: subscript_name)
  have i: "identify_non_academic_authors (dict_get kv (str_of ''authors'') (JList [])) = Inr (map flag_dict ps)"
    using assms(1) ps by simp
  have "names = [[]] \<longrightarrow> na \<noteq> []"
    using f ps by auto
  then show ?thesis
    using project_row_fields(1) [OF i f] by (auto simp: or_na_def)
qed

theorem na_decided_by_joined_string_witness:
  "field_of (project_row (JDict [(str_of ''uid'', JStr (str_of ''9'')),
       (str_of ''authors'', JList [JDict [(str_of ''name'', JStr []),
                                          (str_of ''affiliation'', JStr (str_of ''Initech''))]])]))
     (str_of ''Non-academic Authors'') = Inr (JStr (str_of ''N/A''))
   \<and> identify_non_academic_authors
        (JList [JDict [(str_of ''name'', JStr []),
                       (str_of ''affiliation'', JStr (str_of ''Initech''))]])
       = Inr [JDict [(str_of ''name'', JStr []),
                     (str_of ''affiliation'', JStr (str_of ''Initech''))]]"
proof -
  let ?kv = "[(str_of ''uid'', JStr (str_of ''9'')),
              (str_of ''authors'', JList [JDict [(str_of ''name'', JStr []),
                                                 (str_of ''affiliation'',
                                                     JStr (str_of ''Initech''))]])]"
  let ?na = "[JDict [(str_of ''name'', JStr []),
                     (str_of ''affiliation'', JStr (str_of ''Initech''))]]"
  have i: "identify_non_academic_authors (dict_get ?kv (str_of ''authors'') (JList [])) = Inr ?na"
    by (simp add: eval_identify)
  have i': "identify_non_academic_authors
        (JList [JDict [(str_of ''name'', JStr []),
                       (str_of ''affiliation'', JStr (str_of ''Initech''))]]) = Inr ?na"
    by (simp add: eval_identify)
  have s: "subscript_each (str_of ''name'') ?na = Inr (map JStr [[]])"
    by simp
  show ?thesis
    using na_decided_by_joined_string [OF i s] i' by simp
qed

end
